theory Spec2Isabelle
  imports Main
begin

section \<open>Errors and JavaScript helpers\<close>

text \<open>
  Every \<^verbatim>\<open>throw\<close> and every rejected promise of the TypeScript sources is a value of
  \<open>error\<close>, returned on the left of a sum. \<open>InputError\<close> and \<open>NotModifiedError\<close> are
  the classes of \<^verbatim>\<open>@backstage/errors\<close>, \<open>Error\<close> and \<open>TypeError\<close> the built-in ones,
  and \<open>RequestError\<close> is the rejection of an octokit call: it is the only one that
  carries a \<^verbatim>\<open>status\<close> property.
\<close>

datatype error =
    InputError string
  | NotModifiedError
  | Error string
  | TypeError string
  | RequestError int string

fun error_status :: "error \<Rightarrow> int option" where
  "error_status (RequestError s m) = Some s"
| "error_status e = None"

fun error_message :: "error \<Rightarrow> string" where
  "error_message (InputError m) = m"
| "error_message NotModifiedError = []"
| "error_message (Error m) = m"
| "error_message (TypeError m) = m"
| "error_message (RequestError s m) = m"

fun error_name :: "error \<Rightarrow> string" where
  "error_name (InputError m) = ''InputError''"
| "error_name NotModifiedError = ''NotModifiedError''"
| "error_name (Error m) = ''Error''"
| "error_name (TypeError m) = ''TypeError''"
| "error_name (RequestError s m) = ''HttpError''"

text \<open>The text a template literal \<^verbatim>\<open>${error}\<close> produces (\<^verbatim>\<open>Error.prototype.toString\<close>).\<close>

definition error_toString :: "error \<Rightarrow> string" where
  "error_toString e =
     (if error_message e = [] then error_name e
      else error_name e @ '': '' @ error_message e)"

text \<open>\<^verbatim>\<open>s.startsWith(p)\<close>: \<open>p\<close> is an initial segment of \<open>s\<close>.\<close>

definition startsWith :: "string \<Rightarrow> string \<Rightarrow> bool" where
  "startsWith s p = (take (length p) s = p)"

text \<open>\<^verbatim>\<open>a || b\<close> on strings: the empty string is falsy.\<close>

definition or_else :: "string \<Rightarrow> string \<Rightarrow> string" where
  "or_else a b = (if a = [] then b else a)"

text \<open>
  \<^verbatim>\<open>s.replace(pat, rep)\<close> with a string pattern: the first occurrence of \<open>pat\<close> in
  \<open>s\<close>, wherever it is, is replaced; a string without the pattern is unchanged.
\<close>

fun replace_first :: "string \<Rightarrow> string \<Rightarrow> string \<Rightarrow> string" where
  "replace_first pat rep [] = (if pat = [] then rep else [])"
| "replace_first pat rep (c # cs) =
     (if startsWith (c # cs) pat then rep @ drop (length pat) (c # cs)
      else c # replace_first pat rep cs)"

text \<open>
  \<^verbatim>\<open>Promise.all\<close> over tasks that have settled: fulfilled with all the values when
  every task is fulfilled, rejected as soon as one is. Which rejection wins depends on
  the order in which the tasks settle; the model reports the leftmost one.
\<close>

fun promise_all :: "(error + 'a) list \<Rightarrow> error + 'a list" where
  "promise_all [] = Inr []"
| "promise_all (Inl e # ts) = Inl e"
| "promise_all (Inr v # ts) =
     (case promise_all ts of Inl e \<Rightarrow> Inl e | Inr vs \<Rightarrow> Inr (v # vs))"

section \<open>The content reader (reader.ts)\<close>

subsection \<open>Data\<close>

text \<open>
  An entry of \<^verbatim>\<open>response.data.tree\<close>. Every field of the octokit type is optional
  (\<^verbatim>\<open>path?: string\<close>, \<^verbatim>\<open>type?: string\<close>, \<^verbatim>\<open>sha?: string\<close>), so each is an option.
\<close>

record tree_item =
  item_path :: "string option"
  item_type :: "string option"
  item_sha :: "string option"

text \<open>The object \<^verbatim>\<open>git-url-parse\<close> returns, with the fields the reader uses.\<close>

record git_url =
  source :: string
  git_owner :: string
  name :: string
  filepath :: string
  git_ref :: string

text \<open>The result of \<^verbatim>\<open>parseGithubUrl\<close>.\<close>

record parsed_url =
  host :: string
  owner :: string
  repo :: string
  path :: string
  ref :: string

subsection \<open>The blob filters\<close>

text \<open>
  \<^verbatim>\<open>item => item.type === 'blob' && (!path || item.path?.startsWith(path))\<close>.
  \<^verbatim>\<open>!path\<close> holds for the empty sub-path only; \<^verbatim>\<open>item.path?.startsWith(path)\<close>
  is \<^verbatim>\<open>undefined\<close>, hence falsy, when the entry has no path.
\<close>

definition readTree_keep :: "string \<Rightarrow> tree_item \<Rightarrow> bool" where
  "readTree_keep sub item =
     (item_type item = Some ''blob'' \<and>
      (sub = [] \<or> (case item_path item of None \<Rightarrow> False | Some p \<Rightarrow> startsWith p sub)))"

definition readTree_select :: "string \<Rightarrow> tree_item list \<Rightarrow> tree_item list" where
  "readTree_select sub tree = filter (readTree_keep sub) tree"

text \<open>
  \<^verbatim>\<open>item => item.type === 'blob' && minimatch(item.path!, path || '**')\<close>.
  \<^verbatim>\<open>minimatch\<close> is a third-party glob matcher, declared
  \<^verbatim>\<open>(p: string, pattern: string) => boolean\<close>; it is the parameter \<open>mm\<close>. The
  non-null assertion \<^verbatim>\<open>item.path!\<close> tests nothing: for a blob entry without a path
  the matcher receives \<^verbatim>\<open>undefined\<close>, outside its domain: it splits its first
  argument, so the call throws a \<^verbatim>\<open>TypeError\<close> out of the filter, which ends the
  search (the text of the message is not the library's). The entries are visited from
  left to right.
\<close>

definition search_pattern :: "string \<Rightarrow> string" where
  "search_pattern sub = or_else sub ''**''"

fun search_select ::
  "(string \<Rightarrow> string \<Rightarrow> bool) \<Rightarrow> string \<Rightarrow> tree_item list \<Rightarrow> error + tree_item list" where
  "search_select mm sub [] = Inr []"
| "search_select mm sub (item # rest) =
     (if item_type item = Some ''blob'' then
        (case item_path item of
           None \<Rightarrow> Inl (TypeError ''path is undefined'')
         | Some p \<Rightarrow>
             (case search_select mm sub rest of
                Inl e \<Rightarrow> Inl e
              | Inr sel \<Rightarrow> Inr (if mm p (search_pattern sub) then item # sel else sel)))
      else search_select mm sub rest)"

text \<open>
  The one pattern \<^verbatim>\<open>search\<close> builds itself is \<^verbatim>\<open>**\<close>. With the default options,
  which is how the filter calls it, \<^verbatim>\<open>minimatch(p, '**')\<close> splits \<open>p\<close> at each run
  of \<^verbatim>\<open>/\<close> and lets \<^verbatim>\<open>**\<close> take all the segments unless one of them begins with a
  dot (\<^verbatim>\<open>dot: false\<close>; the segments \<^verbatim>\<open>.\<close> and \<^verbatim>\<open>..\<close> are among them). This is the
  behaviour of the library on POSIX paths, written down for this pattern only;
  \<open>dot_segment start p\<close> tells whether a segment of \<open>p\<close> begins with a dot, \<open>start\<close>
  saying that \<open>p\<close> begins at the start of a segment.
\<close>

fun dot_segment :: "bool \<Rightarrow> string \<Rightarrow> bool" where
  "dot_segment start [] = False"
| "dot_segment start (c # cs) =
     (if c = CHR ''/'' then dot_segment True cs
      else if start \<and> c = CHR ''.'' then True
      else dot_segment False cs)"

definition minimatch_globstar :: "string \<Rightarrow> bool" where
  "minimatch_globstar p = (\<not> dot_segment True p)"

subsection \<open>The per-host client and the collaborators\<close>

record content_request =
  cr_owner :: string
  cr_repo :: string
  cr_path :: "string option"
  cr_ref :: string
  cr_headers :: "(string \<times> string) list"

record tree_request =
  tr_owner :: string
  tr_repo :: string
  tree_sha :: string
  recursive :: string

text \<open>
  \<^verbatim>\<open>response.data\<close> of \<^verbatim>\<open>repos.getContent\<close>: a file object has the fields
  \<^verbatim>\<open>content\<close> and \<^verbatim>\<open>encoding\<close>; a directory listing, a symlink or a submodule has
  no \<^verbatim>\<open>content\<close> field.
\<close>

datatype content_data = FileData string string | NoContent

record content_response =
  c_data :: content_data
  c_headers :: "string \<rightharpoonup> string"

record tree_response =
  tree :: "tree_item list"
  t_headers :: "string \<rightharpoonup> string"

text \<open>
  The client \<^verbatim>\<open>forHost\<close> hands out, as the two calls the reader makes on it. An
  upstream answer that octokit does not count as a success (a 4xx or 5xx status, and
  304) arrives as a rejection \<open>RequestError status message\<close>. The upstream is taken
  as a function of the request for the duration of one read.
\<close>

record client =
  getTree :: "tree_request \<Rightarrow> error + tree_response"
  getContent :: "content_request \<Rightarrow> error + content_response"

text \<open>
  What the reader reaches outside itself: the Git URL parser, the client service
  (\<^verbatim>\<open>this.#github.forHost\<close>), the file system and path functions of Node, and the
  base64 decoding of \<^verbatim>\<open>Buffer.from\<close>.
\<close>

record reader_io =
  parseGitUrl :: "string \<Rightarrow> error + git_url"
  github_forHost :: "string \<Rightarrow> error + client"
  os_tmpdir :: string
  path_join :: "string \<Rightarrow> string \<Rightarrow> string"
  fs_mkdtemp :: "string \<Rightarrow> error + string"
  fs_mkdir :: "string \<Rightarrow> error + unit"
  fs_writeFile :: "string \<Rightarrow> string \<Rightarrow> error + unit"
  buffer_from :: "string \<Rightarrow> string"

definition parseGithubUrl :: "reader_io \<Rightarrow> string \<Rightarrow> error + parsed_url" where
  "parseGithubUrl io url =
     (case parseGitUrl io url of
        Inl e \<Rightarrow> Inl e
      | Inr parsed \<Rightarrow>
          if source parsed = [] then Inl (Error (''Invalid Git URL: '' @ url))
          else Inr \<lparr>host = source parsed, owner = git_owner parsed, repo = name parsed,
                     path = or_else (filepath parsed) [],
                     ref = or_else (git_ref parsed) ''main''\<rparr>)"

subsection \<open>readUrl\<close>

record read_url_response =
  buffer :: string
  etag :: "string option"
  lastModifiedAt :: "string option"

text \<open>
  The header object of the request: \<^verbatim>\<open>If-None-Match\<close> when the caller's etag is a
  non-empty string (\<^verbatim>\<open>options?.etag ? ... : {}\<close>).
\<close>

definition etag_headers :: "string option \<Rightarrow> (string \<times> string) list" where
  "etag_headers e =
     (case e of None \<Rightarrow> [] | Some t \<Rightarrow> if t = [] then [] else [(''If-None-Match'', t)])"

definition readUrl_request :: "parsed_url \<Rightarrow> string option \<Rightarrow> content_request" where
  "readUrl_request p e =
     \<lparr>cr_owner = owner p, cr_repo = repo p, cr_path = Some (path p), cr_ref = ref p,
      cr_headers = etag_headers e\<rparr>"

text \<open>The body of the \<^verbatim>\<open>try\<close> block of \<^verbatim>\<open>readUrl\<close>.\<close>

definition readUrl_try ::
  "reader_io \<Rightarrow> client \<Rightarrow> parsed_url \<Rightarrow> string \<Rightarrow> string option \<Rightarrow> error + read_url_response" where
  "readUrl_try io c p url e =
     (case getContent c (readUrl_request p e) of
        Inl err \<Rightarrow> Inl err
      | Inr response \<Rightarrow>
          (case c_data response of
             NoContent \<Rightarrow> Inl (Error (''Expected file but got a directory: '' @ url))
           | FileData content encoding \<Rightarrow>
               if encoding \<noteq> ''base64'' then Inl (Error (''Unsupported encoding: '' @ encoding))
               else Inr \<lparr>buffer = buffer_from io content,
                          etag = c_headers response ''etag'',
                          lastModifiedAt =
                            (case c_headers response ''last-modified'' of
                               None \<Rightarrow> None
                             | Some d \<Rightarrow> if d = [] then None else Some d)\<rparr>))"

text \<open>
  \<^verbatim>\<open>readUrl\<close>: parsing and the client lookup are outside the \<^verbatim>\<open>try\<close>; the
  \<^verbatim>\<open>catch\<close> turns an error whose status is 304 into \<open>NotModifiedError\<close> and throws
  every other error again.
\<close>

definition readUrl :: "reader_io \<Rightarrow> string \<Rightarrow> string option \<Rightarrow> error + read_url_response" where
  "readUrl io url e =
     (case parseGithubUrl io url of
        Inl err \<Rightarrow> Inl err
      | Inr p \<Rightarrow>
          (case github_forHost io (host p) of
             Inl err \<Rightarrow> Inl err
           | Inr c \<Rightarrow>
               (case readUrl_try io c p url e of
                  Inl err \<Rightarrow> if error_status err = Some 304 then Inl NotModifiedError else Inl err
                | Inr r \<Rightarrow> Inr r)))"

subsection \<open>readTree\<close>

definition blob_request :: "parsed_url \<Rightarrow> tree_item \<Rightarrow> content_request" where
  "blob_request p file =
     \<lparr>cr_owner = owner p, cr_repo = repo p, cr_path = item_path file, cr_ref = ref p,
      cr_headers = []\<rparr>"

text \<open>
  The task \<^verbatim>\<open>readTree\<close> runs for one selected entry: fetch, return early when the
  answer has no content, reject on an encoding other than base64, write the decoded
  content under the temporary directory. \<^verbatim>\<open>join(tempDir, file.path!)\<close> with an
  absent path is Node's \<^verbatim>\<open>TypeError\<close> for a non-string argument.
\<close>

definition materialize ::
  "reader_io \<Rightarrow> client \<Rightarrow> parsed_url \<Rightarrow> string \<Rightarrow> tree_item \<Rightarrow> error + unit" where
  "materialize io c p tempDir file =
     (case getContent c (blob_request p file) of
        Inl err \<Rightarrow> Inl err
      | Inr fileResponse \<Rightarrow>
          (case c_data fileResponse of
             NoContent \<Rightarrow> Inr ()
           | FileData content encoding \<Rightarrow>
               if encoding \<noteq> ''base64'' then Inl (Error (''Unsupported encoding: '' @ encoding))
               else
                 (case item_path file of
                    None \<Rightarrow> Inl (TypeError ''The path argument must be of type string'')
                  | Some fp \<Rightarrow>
                      (let localPath = path_join io tempDir fp in
                       case fs_mkdir io (path_join io localPath ''..'') of
                         Inl err \<Rightarrow> Inl err
                       | Inr u \<Rightarrow> fs_writeFile io localPath (buffer_from io content)))))"

text \<open>
  The response of \<^verbatim>\<open>readTree\<close>: the selected entries (its \<^verbatim>\<open>files\<close> accessor lists
  their paths and reads the written files), the temporary directory, the etag of the
  listing. The \<^verbatim>\<open>archive\<close> accessor does nothing until it is called and is left out.
\<close>

record read_tree_response =
  rt_files :: "tree_item list"
  rt_dir :: string
  rt_etag :: "string option"

definition tree_request_of :: "parsed_url \<Rightarrow> tree_request" where
  "tree_request_of p =
     \<lparr>tr_owner = owner p, tr_repo = repo p, tree_sha = or_else (ref p) ''main'',
      recursive = ''true''\<rparr>"

definition readTree :: "reader_io \<Rightarrow> string \<Rightarrow> error + read_tree_response" where
  "readTree io url =
     (case parseGithubUrl io url of
        Inl err \<Rightarrow> Inl err
      | Inr p \<Rightarrow>
          (case github_forHost io (host p) of
             Inl err \<Rightarrow> Inl err
           | Inr c \<Rightarrow>
               (case getTree c (tree_request_of p) of
                  Inl err \<Rightarrow> Inl err
                | Inr response \<Rightarrow>
                    (let files = readTree_select (path p) (tree response) in
                     case fs_mkdtemp io (path_join io (os_tmpdir io) ''url-reader-'') of
                       Inl err \<Rightarrow> Inl err
                     | Inr tempDir \<Rightarrow>
                         (case promise_all (map (materialize io c p tempDir) files) of
                            Inl err \<Rightarrow> Inl err
                          | Inr us \<Rightarrow>
                              Inr \<lparr>rt_files = files, rt_dir = tempDir,
                                   rt_etag = t_headers response ''etag''\<rparr>)))))"

subsection \<open>search\<close>

text \<open>
  One result of \<^verbatim>\<open>search\<close>: the constructed web URL and the entry its lazy
  \<^verbatim>\<open>content\<close> accessor will fetch. Nothing is fetched by \<^verbatim>\<open>search\<close> itself.
\<close>

record search_file =
  sf_url :: string
  sf_entry :: tree_item

definition blob_url :: "parsed_url \<Rightarrow> tree_item \<Rightarrow> string" where
  "blob_url p file =
     ''https://github.com/'' @ owner p @ ''/'' @ repo p @ ''/blob/'' @ ref p @ ''/'' @
     (case item_path file of None \<Rightarrow> ''undefined'' | Some fp \<Rightarrow> fp)"

record search_response =
  sr_files :: "search_file list"
  sr_etag :: "string option"

definition search ::
  "reader_io \<Rightarrow> (string \<Rightarrow> string \<Rightarrow> bool) \<Rightarrow> string \<Rightarrow> error + search_response" where
  "search io mm url =
     (case parseGithubUrl io url of
        Inl err \<Rightarrow> Inl err
      | Inr p \<Rightarrow>
          (case github_forHost io (host p) of
             Inl err \<Rightarrow> Inl err
           | Inr c \<Rightarrow>
               (case getTree c (tree_request_of p) of
                  Inl err \<Rightarrow> Inl err
                | Inr response \<Rightarrow>
                    (case search_select mm (path p) (tree response) of
                       Inl err \<Rightarrow> Inl err
                     | Inr files \<Rightarrow>
                         Inr \<lparr>sr_files =
                                map (\<lambda>file. \<lparr>sf_url = blob_url p file, sf_entry = file\<rparr>) files,
                              sr_etag = t_headers response ''etag''\<rparr>))))"

text \<open>The lazy \<^verbatim>\<open>content\<close> accessor of one search result, when it is called.\<close>

definition search_content ::
  "reader_io \<Rightarrow> client \<Rightarrow> parsed_url \<Rightarrow> tree_item \<Rightarrow> error + string" where
  "search_content io c p file =
     (case getContent c (blob_request p file) of
        Inl err \<Rightarrow> Inl err
      | Inr fileResponse \<Rightarrow>
          (case c_data fileResponse of
             NoContent \<Rightarrow>
               Inl (Error (''Expected file but got directory: '' @
                      (case item_path file of None \<Rightarrow> ''undefined'' | Some fp \<Rightarrow> fp)))
           | FileData content encoding \<Rightarrow>
               if encoding \<noteq> ''base64'' then Inl (Error (''Unsupported encoding: '' @ encoding))
               else Inr (buffer_from io content)))"

section \<open>The credential and client factory (octokit.ts)\<close>

record github_credentials =
  token :: "string option"

text \<open>\<^verbatim>\<open>integration?.config.apiBaseUrl\<close> is all the factory reads of an integration.\<close>

record integration =
  apiBaseUrl :: "string option"

text \<open>
  The options of \<^verbatim>\<open>new OctokitClient({...})\<close>. The two throttle callbacks log a
  warning and return \<^verbatim>\<open>true\<close>; the fields hold what they return.
\<close>

record octokit_options =
  auth :: "string option"
  baseUrl :: "string option"
  retries :: nat
  doNotRetry :: "string list"
  onRateLimit :: bool
  onSecondaryRateLimit :: bool

datatype log_entry = LogErrorText string | LogErrorObject error

record 'b upstream_request =
  u_method :: string
  u_url :: string
  u_data :: 'b

text \<open>
  What a proxied call does outside the process, in order: the credentials lookup, the
  integration lookup, the construction of a client, a request to the GitHub API, a
  line of the logger.
\<close>

datatype 'b event =
    GetCredentials string
  | ByUrl string
  | NewOctokit octokit_options
  | Request octokit_options "'b upstream_request"
  | Log log_entry

record 'd upstream_response =
  status :: int
  r_headers :: "string \<rightharpoonup> string"
  data :: 'd

text \<open>
  The collaborators of the router: the credentials provider, the SCM integrations,
  \<^verbatim>\<open>octokit.request\<close> (with the retries and the throttling of the client inside
  it) and \<^verbatim>\<open>JSON.stringify\<close>.
\<close>

record ('b, 'd) router_env =
  getCredentials :: "string \<Rightarrow> error + github_credentials"
  byUrl :: "string \<Rightarrow> error + integration option"
  octokit_request :: "octokit_options \<Rightarrow> 'b upstream_request \<Rightarrow> error + 'd upstream_response"
  json_stringify :: "'d \<Rightarrow> string"

definition octokit_for :: "github_credentials \<Rightarrow> integration option \<Rightarrow> octokit_options" where
  "octokit_for creds integ =
     \<lparr>auth = token creds,
      baseUrl = (case integ of None \<Rightarrow> None | Some i \<Rightarrow> apiBaseUrl i),
      retries = 3,
      doNotRetry = [''400'', ''401'', ''403'', ''404'', ''422'', ''429'', ''501''],
      onRateLimit = True,
      onSecondaryRateLimit = True\<rparr>"

definition creation_failed :: "string \<Rightarrow> error \<Rightarrow> 'b event" where
  "creation_failed url err =
     Log (LogErrorText (''Error creating Octokit for url '' @ url @ '': '' @ error_toString err))"

text \<open>
  \<^verbatim>\<open>getOctokit\<close>: both lookups are inside the \<^verbatim>\<open>try\<close>; the \<^verbatim>\<open>catch\<close> logs and
  returns \<^verbatim>\<open>undefined\<close>. The result is the client, if any, and what was done.
\<close>

definition getOctokit ::
  "('b, 'd) router_env \<Rightarrow> string \<Rightarrow> octokit_options option \<times> 'b event list" where
  "getOctokit env url =
     (case getCredentials env url of
        Inl err \<Rightarrow> (None, [GetCredentials url, creation_failed url err])
      | Inr creds \<Rightarrow>
          (case byUrl env url of
             Inl err \<Rightarrow> (None, [GetCredentials url, ByUrl url, creation_failed url err])
           | Inr integ \<Rightarrow>
               (Some (octokit_for creds integ),
                [GetCredentials url, ByUrl url, NewOctokit (octokit_for creds integ)])))"

section \<open>The request proxy router (router.ts)\<close>

text \<open>
  The fields of \<^verbatim>\<open>req\<close> the handler reads; \<open>req_method\<close> is \<^verbatim>\<open>req.method\<close>. Node
  joins repeated headers other than \<^verbatim>\<open>set-cookie\<close> into one string, so a header value
  is a string.
\<close>

record 'b request =
  req_method :: string
  originalUrl :: string
  headers :: "string \<rightharpoonup> string"
  body :: 'b

text \<open>
  The two ways the handler answers: \<^verbatim>\<open>res.writeHead(status, headers)\<close> followed
  by \<^verbatim>\<open>res.end(text)\<close>, and \<^verbatim>\<open>res.status(status).json({ error: message })\<close>.
\<close>

datatype response =
    WriteHeadEnd int "string \<rightharpoonup> string" string
  | StatusJson int string

record 'b handled =
  thrown :: "error option"
  events :: "'b event list"
  response :: "response option"

definition missing_host :: error where
  \<open>missing_host = InputError ''Missing "github-host" header''\<close>

text \<open>The \<^verbatim>\<open>catch\<close> block of the handler; \<^verbatim>\<open>error.status || 500\<close>.\<close>

definition caught :: "'b event list \<Rightarrow> error \<Rightarrow> 'b handled" where
  "caught evs err =
     \<lparr>thrown = None,
      events = evs @ [Log (LogErrorObject err)],
      response =
        Some (StatusJson
                (case error_status err of
                   None \<Rightarrow> 500
                 | Some s \<Rightarrow> if s = 0 then 500 else s)
                (error_message err))\<rparr>"

definition filteredHeaders :: "(string \<rightharpoonup> string) \<Rightarrow> (string \<rightharpoonup> string)" where
  "filteredHeaders hs =
     (hs(''transfer-encoding'' := None, ''content-encoding'' := None))
       (''content-type'' \<mapsto> ''application/json'')"

definition updatedUrl :: "string \<Rightarrow> string" where
  "updatedUrl original = replace_first ''/api/github'' [] original"

text \<open>
  The handler \<^verbatim>\<open>router.use(async (req, res) => ...)\<close>. The header test is before
  the \<^verbatim>\<open>try\<close>, so its \<open>InputError\<close> leaves the handler; \<^verbatim>\<open>!url\<close> holds for an
  absent header and for an empty one.
\<close>

definition handler :: "('b, 'd) router_env \<Rightarrow> 'b request \<Rightarrow> 'b handled" where
  "handler env req =
     (case headers req ''github-host'' of
        None \<Rightarrow> \<lparr>thrown = Some missing_host, events = [], response = None\<rparr>
      | Some url \<Rightarrow>
          if url = [] then \<lparr>thrown = Some missing_host, events = [], response = None\<rparr>
          else
            (case getOctokit env url of
               (None, evs) \<Rightarrow>
                 caught evs (Error (''Failed to create Octokit instance for '' @ url))
             | (Some octokit, evs) \<Rightarrow>
                 (let rq = \<lparr>u_method = req_method req, u_url = updatedUrl (originalUrl req),
                            u_data = body req\<rparr>
                  in case octokit_request env octokit rq of
                       Inl err \<Rightarrow> caught (evs @ [Request octokit rq]) err
                     | Inr resp \<Rightarrow>
                         \<lparr>thrown = None,
                          events = evs @ [Request octokit rq],
                          response =
                            Some (WriteHeadEnd (status resp) (filteredHeaders (r_headers resp))
                                    (json_stringify env (data resp)))\<rparr>)))"

text \<open>The calls that leave the process towards GitHub or build a client for it.\<close>

fun is_upstream :: "'b event \<Rightarrow> bool" where
  "is_upstream (NewOctokit oc) = True"
| "is_upstream (Request oc rq) = True"
| "is_upstream ev = False"

section \<open>The rate-limit metrics (rateLimitMetricsMiddleware)\<close>

text \<open>
  \<^verbatim>\<open>res.getHeader\<close> returns \<^verbatim>\<open>number | string | string[] | undefined\<close>. The
  arithmetic of JavaScript numbers is not modelled: \<open>'n\<close> is the type of a number.
\<close>

datatype 'n header_value = HNumber 'n | HString string | HArray "string list"

text \<open>
  The two operations on numbers the listener uses: \<open>js_parseInt s\<close> is
  \<^verbatim>\<open>parseInt(s, 10)\<close> and \<open>js_minus_now v\<close> is \<^verbatim>\<open>v - Math.floor(Date.now() / 1000)\<close>.
\<close>

record 'n js_numbers =
  js_parseInt :: "string \<Rightarrow> 'n"
  js_minus_now :: "'n \<Rightarrow> 'n"

datatype principal = UserPrincipal string | ServicePrincipal string | OtherPrincipal

datatype gauge = rateLimitMetric | rateLimitRemainingMetric | rateLimitResetMetric

text \<open>One call \<^verbatim>\<open>gauge.set({ invoked_by, external_api }, value)\<close>.\<close>

record 'n observation =
  obs_gauge :: gauge
  invoked_by :: "string option"
  external_api :: string
  obs_value :: 'n

record 'r metrics_params =
  httpAuth_credentials :: "'r \<Rightarrow> error + principal"
  externalApi :: string
  limitHeader :: "string option"
  remainingHeader :: "string option"
  resetHeader :: "string option"

text \<open>\<^verbatim>\<open>a ?? b\<close>: only an absent value gives way to the default.\<close>

definition nullish :: "string option \<Rightarrow> string \<Rightarrow> string" where
  "nullish a b = (case a of None \<Rightarrow> b | Some v \<Rightarrow> v)"

definition invokedBy_of :: "principal \<Rightarrow> string option" where
  "invokedBy_of credentials =
     (case credentials of
        UserPrincipal userEntityRef \<Rightarrow> Some userEntityRef
      | ServicePrincipal subject \<Rightarrow> Some subject
      | OtherPrincipal \<Rightarrow> None)"

text \<open>
  One \<^verbatim>\<open>if (typeof v === 'string') gauge.set(labels, f(v))\<close>.
\<close>

definition set_if_string ::
  "gauge \<Rightarrow> string option \<Rightarrow> string \<Rightarrow> (string \<Rightarrow> 'n) \<Rightarrow> 'n header_value option
    \<Rightarrow> 'n observation list" where
  "set_if_string g who api f v =
     (case v of
        Some (HString s) \<Rightarrow>
          [\<lparr>obs_gauge = g, invoked_by = who, external_api = api, obs_value = f s\<rparr>]
      | _ \<Rightarrow> [])"

text \<open>
  The listener of \<^verbatim>\<open>res.on('finish', ...)\<close>: \<open>getHeader\<close> is the response's
  \<^verbatim>\<open>res.getHeader\<close>. A rejection of \<^verbatim>\<open>httpAuth.credentials\<close> leaves the listener
  before anything is set.
\<close>

definition on_finish ::
  "'r metrics_params \<Rightarrow> 'n js_numbers \<Rightarrow> 'r \<Rightarrow> (string \<Rightarrow> 'n header_value option)
    \<Rightarrow> error + 'n observation list" where
  "on_finish params num req getHeader =
     (case httpAuth_credentials params req of
        Inl err \<Rightarrow> Inl err
      | Inr credentials \<Rightarrow>
          (let invokedBy = invokedBy_of credentials;
               limit = getHeader (nullish (limitHeader params) ''X-RateLimit-Limit'');
               remaining =
                 getHeader (nullish (remainingHeader params) ''X-RateLimit-Overall-Remaining'');
               reset = getHeader (nullish (resetHeader params) ''X-External-Api-RateLimit-Reset'')
           in Inr (set_if_string rateLimitMetric invokedBy (externalApi params)
                     (js_parseInt num) limit @
                   set_if_string rateLimitRemainingMetric invokedBy (externalApi params)
                     (js_parseInt num) remaining @
                   set_if_string rateLimitResetMetric invokedBy (externalApi params)
                     (\<lambda>s. js_minus_now num (js_parseInt num s)) reset)))"

section \<open>The router as a whole (createRouter)\<close>

text \<open>
  What has happened to one request on its way through the router: the outcome of the
  proxy handler, once it has run, and the number of \<^verbatim>\<open>finish\<close> listeners attached
  to the response.
\<close>

record 'b exchange =
  answered :: "'b handled option"
  finish_listeners :: nat

text \<open>
  Express calls the functions given to \<^verbatim>\<open>router.use\<close> in the order of registration,
  and goes on to the next one only when the current one calls \<^verbatim>\<open>next()\<close>. A function
  of the router is modelled by what it does to the exchange and whether it called
  \<^verbatim>\<open>next\<close>.
\<close>

fun dispatch :: "('b exchange \<Rightarrow> bool \<times> 'b exchange) list \<Rightarrow> 'b exchange \<Rightarrow> 'b exchange" where
  "dispatch [] x = x"
| "dispatch (m # ms) x =
     (let (called_next, x') = m x in if called_next then dispatch ms x' else x')"





section \<open>The client cache (GithubClient)\<close>

text \<open>The options of \<^verbatim>\<open>new Octokit({...})\<close> in \<^verbatim>\<open>forHost\<close>.\<close>

record 'f octokit =
  o_baseUrl :: string
  o_fetch :: "'f option"
  o_headers :: "(string \<times> string) list"
  retry_enabled :: bool
  throttle_enabled :: bool






section \<open>Notions used in the statements\<close>

text \<open>
  The path with the prefix \<open>p\<close> stripped, as the specification words the rewriting of
  the router: a path that does not begin with \<open>p\<close> has nothing to strip.
\<close>

definition strip_prefix :: "string \<Rightarrow> string \<Rightarrow> string" where
  "strip_prefix p s = (if startsWith s p then drop (length p) s else s)"

text \<open>The values set on one gauge, in order.\<close>

definition values_of :: "gauge \<Rightarrow> 'n observation list \<Rightarrow> 'n list" where
  "values_of g obs = map obs_value (filter (\<lambda>ob. obs_gauge ob = g) obs)"

text \<open>
  What is set for one header value: \<open>f s\<close> for a value \<open>s\<close> of type string, nothing
  for an absent header, a number or an array.
\<close>

definition string_value :: "(string \<Rightarrow> 'n) \<Rightarrow> 'n header_value option \<Rightarrow> 'n list" where
  "string_value f v = (case v of Some (HString s) \<Rightarrow> [f s] | _ \<Rightarrow> [])"


section \<open>Example inputs\<close>

definition example_blob :: "string \<Rightarrow> tree_item" where
  "example_blob p = \<lparr>item_path = Some p, item_type = Some ''blob'', item_sha = Some ''3b18e5''\<rparr>"

definition pathless_blob :: tree_item where
  "pathless_blob = \<lparr>item_path = None, item_type = Some ''blob'', item_sha = Some ''3b18e5''\<rparr>"

definition example_dir :: "string \<Rightarrow> tree_item" where
  "example_dir p = \<lparr>item_path = Some p, item_type = Some ''tree'', item_sha = Some ''9c1f02''\<rparr>"

definition example_file_response :: content_response where
  "example_file_response = \<lparr>c_data = FileData ''aGVsbG8='' ''base64'', c_headers = Map.empty\<rparr>"

text \<open>A client whose listing is \<^verbatim>\<open>[a.txt, b.txt]\<close>, with the given content call.\<close>

definition example_client :: "(content_request \<Rightarrow> error + content_response) \<Rightarrow> client" where
  "example_client gc =
     \<lparr>getTree = (\<lambda>rq. Inr \<lparr>tree = [example_blob ''a.txt'', example_blob ''b.txt''],
                             t_headers = [''etag'' \<mapsto> ''W/7d1'']\<rparr>),
      getContent = gc\<rparr>"

definition example_io :: "string \<Rightarrow> client \<Rightarrow> reader_io" where
  "example_io fp c =
     \<lparr>parseGitUrl = (\<lambda>url. Inr \<lparr>source = ''github.com'', git_owner = ''o'', name = ''r'',
                                 filepath = fp, git_ref = []\<rparr>),
      github_forHost = (\<lambda>h. Inr c),
      os_tmpdir = ''/tmp'',
      path_join = (\<lambda>a b. a @ ''/'' @ b),
      fs_mkdtemp = (\<lambda>prefix. Inr (prefix @ ''x1'')),
      fs_mkdir = (\<lambda>d. Inr ()),
      fs_writeFile = (\<lambda>f b. Inr ()),
      buffer_from = (\<lambda>s. s)\<rparr>"

definition not_modified_client :: client where
  "not_modified_client = example_client (\<lambda>rq. Inl (RequestError 304 ''Not modified''))"

definition b_fails_client :: client where
  "b_fails_client =
     example_client (\<lambda>rq. if cr_path rq = Some ''b.txt'' then Inl (RequestError 502 ''Bad Gateway'')
                           else Inr example_file_response)"

definition example_env :: "(string, string) router_env" where
  "example_env =
     \<lparr>getCredentials = (\<lambda>url. if url = ''github.com'' then Inr \<lparr>token = Some ''ghs_16C7e42F''\<rparr>
                                else Inl (Error ''No credentials'')),
      byUrl = (\<lambda>url. Inr (Some \<lparr>apiBaseUrl = Some ''https://api.github.com''\<rparr>)),
      octokit_request = (\<lambda>oc rq. Inr \<lparr>status = 200,
                                         r_headers = [''transfer-encoding'' \<mapsto> ''chunked'',
                                                      ''etag'' \<mapsto> ''W/7d1''],
                                         data = u_url rq\<rparr>),
      json_stringify = (\<lambda>d. d)\<rparr>"

definition example_request :: "(string \<rightharpoonup> string) \<Rightarrow> string request" where
  "example_request hs =
     \<lparr>req_method = ''GET'', originalUrl = ''/api/github/repos/o/r/contents/x'', headers = hs,
      body = []\<rparr>"

text \<open>A request whose path holds \<^verbatim>\<open>/api/github\<close>, but not at its start.\<close>

definition nested_request :: "string request" where
  "nested_request =
     \<lparr>req_method = ''GET'', originalUrl = ''/repos/o/r/contents/api/github/x'',
      headers = [''github-host'' \<mapsto> ''github.com''], body = []\<rparr>"




section \<open>Strings and promises\<close>

lemma startsWith_append: "startsWith (p @ r) p"
  by (simp add: startsWith_def)

lemma startsWith_iff: "startsWith s p \<longleftrightarrow> (\<exists>r. s = p @ r)"
proof
  assume "startsWith s p"
  then have "s = p @ drop (length p) s"
    by (metis append_take_drop_id startsWith_def)
  then show "\<exists>r. s = p @ r" ..
next
  assume "\<exists>r. s = p @ r"
  then show "startsWith s p" by (auto simp: startsWith_def)
qed

lemma replace_first_prefix:
  "startsWith s pat \<Longrightarrow> replace_first pat rep s = rep @ drop (length pat) s"
  by (cases s) (auto simp: startsWith_def)

lemma replace_first_strip: "replace_first p [] (p @ r) = r"
  using replace_first_prefix [of "p @ r" p "[]"] by (simp add: startsWith_append)

lemma updatedUrl_prefix: "updatedUrl (''/api/github'' @ rest) = rest"
  unfolding updatedUrl_def by (rule replace_first_strip)

text \<open>A string in which the pattern does not occur is left as it is.\<close>

lemma replace_first_absent:
  "(\<forall>k\<le>length s. \<not> startsWith (drop k s) pat) \<Longrightarrow> replace_first pat rep s = s"
proof (induction s)
  case Nil
  then show ?case by (auto simp: startsWith_def)
next
  case (Cons c cs)
  from Cons.prems have "\<not> startsWith (c # cs) pat" by (metis drop0 le0)
  moreover have "\<forall>k\<le>length cs. \<not> startsWith (drop k cs) pat"
  proof (intro allI impI)
    fix k assume "k \<le> length cs"
    then have "Suc k \<le> length (c # cs)" by simp
    with Cons.prems have "\<not> startsWith (drop (Suc k) (c # cs)) pat" by blast
    then show "\<not> startsWith (drop k cs) pat" by simp
  qed
  ultimately show ?case using Cons.IH by simp
qed

text \<open>The occurrence that is replaced is the leftmost one.\<close>

lemma replace_first_occurrence:
  "(\<forall>k<length a. \<not> startsWith (drop k (a @ pat @ b)) pat) \<Longrightarrow>
   replace_first pat rep (a @ pat @ b) = a @ rep @ b"
proof (induction a)
  case Nil
  show ?case
    using replace_first_prefix [of "pat @ b" pat rep] by (simp add: startsWith_append)
next
  case (Cons c cs)
  from Cons.prems have "\<not> startsWith (c # cs @ pat @ b) pat"
    by (metis append_Cons drop0 length_greater_0_conv list.distinct(1))
  moreover have "\<forall>k<length cs. \<not> startsWith (drop k (cs @ pat @ b)) pat"
  proof (intro allI impI)
    fix k assume "k < length cs"
    then have "Suc k < length (c # cs)" by simp
    with Cons.prems have "\<not> startsWith (drop (Suc k) ((c # cs) @ pat @ b)) pat" by blast
    then show "\<not> startsWith (drop k (cs @ pat @ b)) pat" by simp
  qed
  ultimately show ?case using Cons.IH by simp
qed

lemma promise_all_rejects: "Inl e \<in> set ts \<Longrightarrow> \<exists>e'. promise_all ts = Inl e'"
proof (induction ts rule: promise_all.induct)
  case 1
  then show ?case by simp
next
  case (2 e ts)
  then show ?case by simp
next
  case (3 v ts)
  then show ?case by (auto split: sum.splits)
qed

section \<open>The blob filters of readTree and search\<close>

lemma set_readTree_select:
  "set (readTree_select sub entries) = {i \<in> set entries. readTree_keep sub i}"
  by (simp add: readTree_select_def)

text \<open>Without a sub-path every entry of type blob is kept, whether it has a path or not.\<close>

lemma readTree_select_all:
  "readTree_select [] entries = filter (\<lambda>i. item_type i = Some ''blob'') entries"
  unfolding readTree_select_def
  by (rule filter_cong) (simp_all add: readTree_keep_def)

text \<open>With a sub-path the kept entries are the blobs that have a path beginning with it.\<close>

lemma readTree_select_subpath:
  "sub \<noteq> [] \<Longrightarrow>
   readTree_select sub entries =
     filter (\<lambda>i. item_type i = Some ''blob'' \<and> (\<exists>p. item_path i = Some p \<and> startsWith p sub))
       entries"
  unfolding readTree_select_def
  by (rule filter_cong) (auto simp: readTree_keep_def split: option.splits)

lemma search_select_present:
  assumes "\<forall>i\<in>set entries. item_type i = Some ''blob'' \<longrightarrow> item_path i \<noteq> None"
  shows "search_select mm sub entries =
         Inr (filter (\<lambda>i. item_type i = Some ''blob'' \<and> mm (the (item_path i)) (search_pattern sub))
                entries)"
  using assms by (induction entries) auto

text \<open>
  C2. The claim reads: readTree selects exactly the blob entries whose path is present,
  all of them when the URL has no sub-path. On the listing made of a blob entry without
  a path and the blob \<^verbatim>\<open>a.txt\<close>, with no sub-path, the filter keeps both entries: the
  test \<^verbatim>\<open>!path\<close> succeeds before the path of the entry is looked at.
\<close>

theorem readTree_select_pathless:
  "readTree_select [] [pathless_blob, example_blob ''a.txt''] =
     [pathless_blob, example_blob ''a.txt''] \<and>
   item_path pathless_blob = None"
  by (simp add: readTree_select_def readTree_keep_def pathless_blob_def example_blob_def)

text \<open>
  C10. The claim reads: every entry selected by the filter of readTree and by the filter
  of search has a present path, so that no later \<^verbatim>\<open>file.path!\<close> meets an absent one.
  On the listing made of one blob entry without a path, with no sub-path, readTree
  selects an entry whose path is absent, and the filter of search hands the absent
  path to the matcher, even to one that accepts every string.
\<close>

theorem selected_path_absent:
  "map item_path (readTree_select [] [pathless_blob]) = [None] \<and>
   search_select (\<lambda>p pat. True) [] [pathless_blob] = Inl (TypeError ''path is undefined'')"
  by (simp add: readTree_select_def readTree_keep_def pathless_blob_def)

lemma dot_segment_examples:
  "minimatch_globstar ''a.txt''"
  "minimatch_globstar ''docs/guide/intro.md''"
  "\<not> minimatch_globstar ''.gitignore''"
  "\<not> minimatch_globstar ''.github/workflows/ci.yml''"
  "\<not> minimatch_globstar ''src//.cache/x''"
  by (simp_all add: minimatch_globstar_def)

text \<open>
  What search selects without a sub-path, over a listing whose blob entries all have a
  path: the entries readTree selects, as far as the matcher accepts them for \<^verbatim>\<open>**\<close>.
\<close>

lemma search_select_filters_readTree:
  assumes "\<forall>i\<in>set entries. item_type i = Some ''blob'' \<longrightarrow> item_path i \<noteq> None"
  shows "search_select mm [] entries =
           Inr (filter (\<lambda>i. mm (the (item_path i)) ''**'') (readTree_select [] entries))"
  unfolding search_select_present [OF assms] readTree_select_all
  by (simp add: search_pattern_def or_else_def conj_commute)

text \<open>
  C3, as stated: for every listing, search without a sub-path selects the same entries
  as readTree without a sub-path. It fails on the listing made of the one blob
  \<^verbatim>\<open>.gitignore\<close>: readTree selects it, and search, whose matcher is minimatch on the
  pattern \<^verbatim>\<open>**\<close>, selects nothing.
\<close>

theorem search_differs_from_readTree:
  "readTree_select [] [example_blob ''.gitignore''] = [example_blob ''.gitignore''] \<and>
   search_select (\<lambda>p pat. minimatch_globstar p) [] [example_blob ''.gitignore''] = Inr []"
  by (simp add: readTree_select_def readTree_keep_def example_blob_def minimatch_globstar_def)

text \<open>
  C3, amended. For a listing in which every blob entry has a path, search without a
  sub-path, its matcher being minimatch on the pattern \<^verbatim>\<open>**\<close>, selects exactly those
  entries of the selection of readTree without a sub-path in whose path no segment
  begins with a dot, in the order of the listing; the two selections are the same when
  no selected path has such a segment.
\<close>

theorem search_select_no_subpath:
  assumes "\<forall>i\<in>set entries. item_type i = Some ''blob'' \<longrightarrow> item_path i \<noteq> None"
    and "\<forall>p. mm p ''**'' = minimatch_globstar p"
  shows "search_select mm [] entries =
           Inr (filter (\<lambda>i. minimatch_globstar (the (item_path i))) (readTree_select [] entries)) \<and>
         ((\<forall>i\<in>set (readTree_select [] entries). minimatch_globstar (the (item_path i))) \<longrightarrow>
            search_select mm [] entries = Inr (readTree_select [] entries))"
proof -
  have sel: "search_select mm [] entries =
           Inr (filter (\<lambda>i. minimatch_globstar (the (item_path i))) (readTree_select [] entries))"
    unfolding search_select_filters_readTree [OF assms(1)] using assms(2) by simp
  moreover have "filter (\<lambda>i. minimatch_globstar (the (item_path i))) (readTree_select [] entries) =
      readTree_select [] entries"
    if "\<forall>i\<in>set (readTree_select [] entries). minimatch_globstar (the (item_path i))"
    using that by (simp add: filter_id_conv)
  ultimately show ?thesis by simp
qed

theorem search_select_no_subpath_witness:
  "search_select (\<lambda>p pat. minimatch_globstar p) []
     [example_blob ''a.txt'', example_blob ''.gitignore'', example_dir ''docs''] =
   Inr [example_blob ''a.txt'']"
proof -
  have h1: "\<forall>i\<in>set [example_blob ''a.txt'', example_blob ''.gitignore'', example_dir ''docs''].
             item_type i = Some ''blob'' \<longrightarrow> item_path i \<noteq> None"
    by (simp add: example_blob_def example_dir_def)
  have h2: "\<forall>p. (\<lambda>p pat. minimatch_globstar p) p ''**'' = minimatch_globstar p"
    by simp
  show ?thesis
    using search_select_no_subpath [OF h1 h2]
    by (simp add: readTree_select_def readTree_keep_def example_blob_def example_dir_def
        minimatch_globstar_def)
qed

section \<open>readUrl and readTree\<close>

lemma example_parse:
  "parseGithubUrl (example_io fp c) url =
     Inr \<lparr>host = ''github.com'', owner = ''o'', repo = ''r'', path = fp, ref = ''main''\<rparr>"
  by (simp add: parseGithubUrl_def example_io_def or_else_def)

text \<open>
  C4. When readUrl is called with an etag and the upstream answers 304, that is, the
  content call is rejected with an error whose status is 304, readUrl ends in
  \<open>NotModifiedError\<close>: not in another error, and not in a response with a buffer. A
  non-empty etag went out as the \<^verbatim>\<open>If-None-Match\<close> header of that call.
\<close>

theorem readUrl_not_modified:
  assumes "parseGithubUrl io url = Inr p"
    and "github_forHost io (host p) = Inr c"
    and "getContent c (readUrl_request p (Some t)) = Inl err"
    and "error_status err = Some 304"
  shows "readUrl io url (Some t) = Inl NotModifiedError \<and>
         (t \<noteq> [] \<longrightarrow> cr_headers (readUrl_request p (Some t)) = [(''If-None-Match'', t)])"
  using assms by (simp add: readUrl_def readUrl_try_def readUrl_request_def etag_headers_def)

theorem readUrl_not_modified_witness:
  "readUrl (example_io ''README.md'' not_modified_client)
     ''https://github.com/o/r/blob/main/README.md'' (Some ''W/7d1'') = Inl NotModifiedError \<and>
   cr_headers (readUrl_request
       \<lparr>host = ''github.com'', owner = ''o'', repo = ''r'', path = ''README.md'', ref = ''main''\<rparr>
       (Some ''W/7d1'')) = [(''If-None-Match'', ''W/7d1'')]"
proof -
  let ?p = "\<lparr>host = ''github.com'', owner = ''o'', repo = ''r'', path = ''README.md'',
             ref = ''main''\<rparr>"
  have h1: "parseGithubUrl (example_io ''README.md'' not_modified_client)
          ''https://github.com/o/r/blob/main/README.md'' = Inr ?p"
    by (rule example_parse)
  have h2: "github_forHost (example_io ''README.md'' not_modified_client) (host ?p) =
              Inr not_modified_client"
    by (simp add: example_io_def)
  have h3: "getContent not_modified_client (readUrl_request ?p (Some ''W/7d1'')) =
              Inl (RequestError 304 ''Not modified'')"
    by (simp add: not_modified_client_def example_client_def)
  have h4: "error_status (RequestError 304 ''Not modified'') = Some 304" by simp
  show ?thesis
    using readUrl_not_modified [OF h1 h2 h3 h4] by simp
qed

lemma materialize_rejects:
  assumes "(\<exists>err. getContent c (blob_request p blob) = Inl err) \<or>
           (\<exists>r content encoding. getContent c (blob_request p blob) = Inr r \<and>
              c_data r = FileData content encoding \<and> encoding \<noteq> ''base64'')"
  shows "\<exists>err. materialize io c p tempDir blob = Inl err"
  using assms by (auto simp: materialize_def)

text \<open>
  C5. Once the listing is there, if the content call of one selected blob is rejected,
  or answers with content in an encoding other than base64, readTree as a whole ends
  in an error: there is no response for the blobs that succeeded.
\<close>

theorem readTree_fails_as_a_whole:
  assumes "parseGithubUrl io url = Inr p"
    and "github_forHost io (host p) = Inr c"
    and "getTree c (tree_request_of p) = Inr listing"
    and "blob \<in> set (readTree_select (path p) (tree listing))"
    and "(\<exists>err. getContent c (blob_request p blob) = Inl err) \<or>
         (\<exists>r content encoding. getContent c (blob_request p blob) = Inr r \<and>
            c_data r = FileData content encoding \<and> encoding \<noteq> ''base64'')"
  shows "\<exists>err. readTree io url = Inl err"
proof (cases "fs_mkdtemp io (path_join io (os_tmpdir io) ''url-reader-'')")
  case (Inl e)
  with assms(1-3) show ?thesis by (simp add: readTree_def)
next
  case (Inr tempDir)
  obtain e where "materialize io c p tempDir blob = Inl e"
    using materialize_rejects [OF assms(5)] by blast
  with assms(4) have "Inl e \<in> set (map (materialize io c p tempDir)
      (readTree_select (path p) (tree listing)))"
    by (metis image_eqI set_map)
  then obtain e' where "promise_all (map (materialize io c p tempDir)
      (readTree_select (path p) (tree listing))) = Inl e'"
    using promise_all_rejects by blast
  with assms(1-3) Inr show ?thesis by (simp add: readTree_def)
qed

text \<open>The listing \<^verbatim>\<open>[a.txt, b.txt]\<close> where the fetch of \<^verbatim>\<open>b.txt\<close> fails.\<close>

theorem readTree_fails_as_a_whole_witness:
  "\<exists>err. readTree (example_io [] b_fails_client) ''https://github.com/o/r'' = Inl err"
proof (rule readTree_fails_as_a_whole [where blob = "example_blob ''b.txt''"])
  show "parseGithubUrl (example_io [] b_fails_client) ''https://github.com/o/r'' =
        Inr \<lparr>host = ''github.com'', owner = ''o'', repo = ''r'', path = [], ref = ''main''\<rparr>"
    by (rule example_parse)
  show "github_forHost (example_io [] b_fails_client)
          (host \<lparr>host = ''github.com'', owner = ''o'', repo = ''r'', path = [], ref = ''main''\<rparr>)
        = Inr b_fails_client"
    by (simp add: example_io_def)
  show "getTree b_fails_client
          (tree_request_of
             \<lparr>host = ''github.com'', owner = ''o'', repo = ''r'', path = [], ref = ''main''\<rparr>)
        = Inr \<lparr>tree = [example_blob ''a.txt'', example_blob ''b.txt''],
               t_headers = [''etag'' \<mapsto> ''W/7d1'']\<rparr>"
    by (simp add: b_fails_client_def example_client_def)
  show "example_blob ''b.txt'' \<in> set (readTree_select
          (path \<lparr>host = ''github.com'', owner = ''o'', repo = ''r'', path = [], ref = ''main''\<rparr>)
          (tree \<lparr>tree = [example_blob ''a.txt'', example_blob ''b.txt''],
               t_headers = [''etag'' \<mapsto> ''W/7d1'']\<rparr>))"
    by (simp add: readTree_select_def readTree_keep_def example_blob_def)
  show "(\<exists>err. getContent b_fails_client
           (blob_request
              \<lparr>host = ''github.com'', owner = ''o'', repo = ''r'', path = [], ref = ''main''\<rparr>
              (example_blob ''b.txt'')) = Inl err) \<or>
        (\<exists>r content encoding. getContent b_fails_client
           (blob_request
              \<lparr>host = ''github.com'', owner = ''o'', repo = ''r'', path = [], ref = ''main''\<rparr>
              (example_blob ''b.txt'')) = Inr r \<and>
            c_data r = FileData content encoding \<and> encoding \<noteq> ''base64'')"
    by (simp add: b_fails_client_def example_client_def blob_request_def example_blob_def)
qed

section \<open>search beside readTree\<close>

lemma readTree_response:
  assumes "parseGithubUrl io url = Inr p"
    and "github_forHost io (host p) = Inr c"
    and "getTree c (tree_request_of p) = Inr listing"
    and "readTree io url = Inr rt"
  shows "rt_files rt = readTree_select (path p) (tree listing) \<and>
         rt_etag rt = t_headers listing ''etag''"
  using assms by (auto simp: readTree_def Let_def split: sum.splits)

lemma search_response:
  assumes "parseGithubUrl io url = Inr p"
    and "github_forHost io (host p) = Inr c"
    and "getTree c (tree_request_of p) = Inr listing"
    and "search_select mm (path p) (tree listing) = Inr sel"
  shows "\<exists>sr. search io mm url = Inr sr \<and> map sf_entry (sr_files sr) = sel \<and>
              map sf_url (sr_files sr) = map (blob_url p) sel \<and>
              sr_etag sr = t_headers listing ''etag''"
  using assms by (simp add: search_def comp_def)

text \<open>
  On a URL without a sub-path, over a listing whose blob entries all have a path: when
  readTree succeeds, search succeeds as well, without having fetched anything, and its
  results are the files of readTree that the matcher accepts, each as a URL.
\<close>

lemma search_lists_matching_readTree_files:
  assumes "parseGithubUrl io url = Inr p" and "path p = []"
    and "github_forHost io (host p) = Inr c"
    and "getTree c (tree_request_of p) = Inr listing"
    and "\<forall>i\<in>set (tree listing). item_type i = Some ''blob'' \<longrightarrow> item_path i \<noteq> None"
    and "readTree io url = Inr rt"
  shows "\<exists>sr. search io mm url = Inr sr \<and>
              map sf_entry (sr_files sr) =
                filter (\<lambda>i. mm (the (item_path i)) ''**'') (rt_files rt) \<and>
              sr_etag sr = rt_etag rt"
proof -
  have rt: "rt_files rt = readTree_select [] (tree listing)"
    "rt_etag rt = t_headers listing ''etag''"
    using readTree_response [OF assms(1,3,4,6)] assms(2) by simp_all
  have "search_select mm (path p) (tree listing) =
          Inr (filter (\<lambda>i. mm (the (item_path i)) ''**'') (readTree_select [] (tree listing)))"
    unfolding assms(2) by (rule search_select_filters_readTree [OF assms(5)])
  from search_response [OF assms(1,3,4) this] show ?thesis
    unfolding rt by blast
qed

section \<open>The router\<close>

text \<open>
  C1. A request without the \<^verbatim>\<open>github-host\<close> header makes the handler throw an
  \<open>InputError\<close>; nothing was done before: no credentials lookup, no client
  construction, no request to the GitHub API, no response.
\<close>

theorem handler_missing_host:
  assumes "headers req ''github-host'' = None"
  shows \<open>handler env req =
           \<lparr>thrown = Some (InputError ''Missing "github-host" header''), events = [],
            response = None\<rparr>\<close>
  using assms by (simp add: handler_def missing_host_def)

theorem handler_missing_host_witness:
  \<open>handler example_env (example_request Map.empty) =
     \<lparr>thrown = Some (InputError ''Missing "github-host" header''), events = [], response = None\<rparr>\<close>
proof (rule handler_missing_host)
  show "headers (example_request Map.empty) ''github-host'' = None"
    by (simp add: example_request_def)
qed

lemma filteredHeaders_other:
  "k \<noteq> ''transfer-encoding'' \<Longrightarrow> k \<noteq> ''content-encoding'' \<Longrightarrow> k \<noteq> ''content-type'' \<Longrightarrow>
   filteredHeaders hs k = hs k"
  by (simp add: filteredHeaders_def)

lemma filteredHeaders_fixed:
  "filteredHeaders hs ''transfer-encoding'' = None"
  "filteredHeaders hs ''content-encoding'' = None"
  "filteredHeaders hs ''content-type'' = Some ''application/json''"
  by (simp_all add: filteredHeaders_def)

text \<open>On a path that begins with the prefix, the rewriting strips the prefix.\<close>

lemma updatedUrl_strip_prefix:
  "startsWith u ''/api/github'' \<Longrightarrow> updatedUrl u = strip_prefix ''/api/github'' u"
  unfolding updatedUrl_def strip_prefix_def
  using replace_first_prefix [of u "''/api/github''" "[]"] by simp

text \<open>
  C6. The claim reads: the forwarded path is the inbound path with the prefix
  \<^verbatim>\<open>/api/github\<close> stripped. The inbound path \<^verbatim>\<open>/repos/o/r/contents/api/github/x\<close>
  has no such prefix, so stripping it leaves the path as it is; the fourth thing the
  handler does for it is a request for \<^verbatim>\<open>/repos/o/r/contents/x\<close>, another file:
  \<^verbatim>\<open>originalUrl.replace('/api/github', '')\<close> cut the text out of the middle.
\<close>

theorem removal_is_not_anchored:
  "events (handler example_env nested_request) ! 3 =
     Request (octokit_for \<lparr>token = Some ''ghs_16C7e42F''\<rparr>
                (Some \<lparr>apiBaseUrl = Some ''https://api.github.com''\<rparr>))
       \<lparr>u_method = ''GET'', u_url = ''/repos/o/r/contents/x'', u_data = []\<rparr> \<and>
   strip_prefix ''/api/github'' (originalUrl nested_request) = ''/repos/o/r/contents/api/github/x''"
  by (simp add: handler_def getOctokit_def example_env_def nested_request_def updatedUrl_def
      startsWith_def strip_prefix_def)

text \<open>
  The rest of the claim, on a path that does begin with the prefix: for a request with
  a non-empty \<^verbatim>\<open>github-host\<close> header whose client is built and whose upstream call
  succeeds, the handler forwards the method and the body as they are and the path with
  the prefix stripped; it relays the upstream status, the upstream headers without
  \<^verbatim>\<open>transfer-encoding\<close> and \<^verbatim>\<open>content-encoding\<close> and with \<^verbatim>\<open>content-type\<close> set to
  \<^verbatim>\<open>application/json\<close>, and the upstream body as JSON text.
\<close>

lemma handler_success:
  assumes "headers req ''github-host'' = Some url" and "url \<noteq> []"
    and "getCredentials env url = Inr creds"
    and "byUrl env url = Inr integ"
    and "originalUrl req = ''/api/github'' @ rest"
    and "octokit_request env (octokit_for creds integ)
           \<lparr>u_method = req_method req, u_url = rest, u_data = body req\<rparr> = Inr resp"
  shows "handler env req =
           \<lparr>thrown = None,
            events = [GetCredentials url, ByUrl url, NewOctokit (octokit_for creds integ),
                      Request (octokit_for creds integ)
                        \<lparr>u_method = req_method req, u_url = rest, u_data = body req\<rparr>],
            response = Some (WriteHeadEnd (status resp) (filteredHeaders (r_headers resp))
                               (json_stringify env (data resp)))\<rparr>"
proof -
  have u: "updatedUrl (originalUrl req) = rest"
    using assms(5) by (simp only: updatedUrl_prefix)
  show ?thesis
    using assms(1-4,6) by (simp add: handler_def getOctokit_def u)
qed

text \<open>
  \<^verbatim>\<open>GET /api/github/repos/o/r/contents/x\<close> for the host \<^verbatim>\<open>github.com\<close> is forwarded
  as \<^verbatim>\<open>GET /repos/o/r/contents/x\<close>, and the answer 200 is relayed.
\<close>

lemma handler_success_example:
  "handler example_env (example_request [''github-host'' \<mapsto> ''github.com'']) =
     \<lparr>thrown = None,
      events = [GetCredentials ''github.com'', ByUrl ''github.com'',
                NewOctokit (octokit_for \<lparr>token = Some ''ghs_16C7e42F''\<rparr>
                              (Some \<lparr>apiBaseUrl = Some ''https://api.github.com''\<rparr>)),
                Request (octokit_for \<lparr>token = Some ''ghs_16C7e42F''\<rparr>
                              (Some \<lparr>apiBaseUrl = Some ''https://api.github.com''\<rparr>))
                  \<lparr>u_method = ''GET'', u_url = ''/repos/o/r/contents/x'', u_data = []\<rparr>],
      response = Some (WriteHeadEnd 200
                         (filteredHeaders [''transfer-encoding'' \<mapsto> ''chunked'', ''etag'' \<mapsto> ''W/7d1''])
                         ''/repos/o/r/contents/x'')\<rparr>"
  by (simp add: handler_def getOctokit_def example_env_def example_request_def updatedUrl_def
      startsWith_def)

section \<open>The client factory\<close>

text \<open>
  C9. When the credentials lookup throws, or the integration lookup throws after it,
  \<^verbatim>\<open>getOctokit\<close> returns \<^verbatim>\<open>undefined\<close>; the last thing it did was to log the error,
  and it built no client. It has no way to throw: its result is a value in every case.
\<close>

theorem getOctokit_absent_on_failure:
  assumes "getCredentials env url = Inl err \<or>
           (\<exists>creds. getCredentials env url = Inr creds \<and> byUrl env url = Inl err)"
  shows "fst (getOctokit env url) = None \<and>
         last (snd (getOctokit env url)) =
           Log (LogErrorText
                  (''Error creating Octokit for url '' @ url @ '': '' @ error_toString err)) \<and>
         (\<forall>ev\<in>set (snd (getOctokit env url)). \<not> is_upstream ev)"
  using assms by (auto simp: getOctokit_def creation_failed_def)

theorem getOctokit_absent_on_failure_witness:
  "fst (getOctokit example_env ''ghe.example.com'' :: octokit_options option \<times> string event list)
     = None \<and>
   snd (getOctokit example_env ''ghe.example.com'' :: octokit_options option \<times> string event list)
     = [GetCredentials ''ghe.example.com'',
        Log (LogErrorText
               ''Error creating Octokit for url ghe.example.com: Error: No credentials'')]"
proof -
  have h: "getCredentials example_env ''ghe.example.com'' = Inl (Error ''No credentials'') \<or>
        (\<exists>creds. getCredentials example_env ''ghe.example.com'' = Inr creds \<and>
                 byUrl example_env ''ghe.example.com'' = Inl (Error ''No credentials''))"
    by (simp add: example_env_def)
  show ?thesis
    using getOctokit_absent_on_failure [OF h]
    by (simp add: getOctokit_def example_env_def creation_failed_def error_toString_def)
qed

section \<open>The rate-limit metrics\<close>

lemma values_of_append: "values_of g (xs @ ys) = values_of g xs @ values_of g ys"
  by (simp add: values_of_def)

lemma values_of_set_if_string:
  "values_of g (set_if_string g' who api f v) = (if g = g' then string_value f v else [])"
  by (simp add: values_of_def set_if_string_def string_value_def
      split: option.splits header_value.splits)

lemma labels_set_if_string:
  "ob \<in> set (set_if_string g who api f v) \<Longrightarrow> invoked_by ob = who \<and> external_api ob = api"
  by (auto simp: set_if_string_def split: option.splits header_value.splits)

text \<open>
  The listener by itself, once the credentials of the request are resolved: it ends
  without an error, and a gauge is set exactly when the value of its header has the
  type string; what the string holds is left to \<^verbatim>\<open>parseInt\<close>.
\<close>

lemma on_finish_string_headers:
  assumes "httpAuth_credentials params req = Inr credentials"
  shows "\<exists>obs. on_finish params num req getHeader = Inr obs \<and>
           (\<forall>ob\<in>set obs. invoked_by ob = invokedBy_of credentials \<and>
                          external_api ob = externalApi params) \<and>
           values_of rateLimitMetric obs =
             string_value (js_parseInt num)
               (getHeader (nullish (limitHeader params) ''X-RateLimit-Limit'')) \<and>
           values_of rateLimitRemainingMetric obs =
             string_value (js_parseInt num)
               (getHeader (nullish (remainingHeader params) ''X-RateLimit-Overall-Remaining'')) \<and>
           values_of rateLimitResetMetric obs =
             string_value (\<lambda>s. js_minus_now num (js_parseInt num s))
               (getHeader (nullish (resetHeader params) ''X-External-Api-RateLimit-Reset''))"
  using assms
  by (auto simp: on_finish_def Let_def values_of_append values_of_set_if_string
      dest: labels_set_if_string)

lemma dispatch_stops:
  "fst (m x) = False \<Longrightarrow> dispatch (m # ms) x = snd (m x)"
  by (simp add: case_prod_unfold)


section \<open>The client cache\<close>











end
